theory Spec2Isabelle
  imports Main
begin

section \<open>The header \<^verbatim>\<open>Passkey.h\<close> as data\<close>

text \<open>
  \<^verbatim>\<open>Passkey.h\<close> holds no functions: it is a documentation comment, \<^verbatim>\<open>#pragma once\<close>
  and three \<^verbatim>\<open>#define\<close> directives. The embedding therefore works on preprocessing
  tokens. A macro's replacement list is written down token by token as it stands in the
  file (after the backslash-newline splices of translation phase 2), comments included;
  invoking the macro removes the comments (translation phase 3) and replaces every
  occurrence of the formal parameter by the argument (phase 4).
\<close>

datatype token =
    Kw_class | Kw_private | Kw_public | Kw_friend | Kw_const | Kw_operator | Kw_delete
  | LBrace | RBrace | LParen | RParen | Colon | Semi | Amp | Assign
  | Ident string
  | Comment string

text \<open>Lines 42 to 48: the replacement list of \<^verbatim>\<open>PK_BEGIN(_PasskeyName)\<close>.\<close>

definition PK_BEGIN_body :: "token list" where
  "PK_BEGIN_body =
     [Kw_class, Ident ''_PasskeyName'',
      LBrace,
      Kw_private, Colon,
      Ident ''_PasskeyName'', LParen, RParen,
        LBrace, Comment '' Intentionally blank '', RBrace,
      Ident ''_PasskeyName'', LParen, Kw_const, Ident ''_PasskeyName'', Amp, RParen,
        LBrace, Comment '' Intentionally blank '', RBrace,
      Ident ''_PasskeyName'', Amp, Kw_operator, Assign,
        LParen, Kw_const, Ident ''_PasskeyName'', Amp, RParen, Assign, Kw_delete, Semi]"

text \<open>Lines 50 and 51: the replacement list of \<^verbatim>\<open>PK_ALLOW(_ClassName)\<close>.\<close>

definition PK_ALLOW_body :: "token list" where
  "PK_ALLOW_body = [Kw_friend, Ident ''_ClassName'', Semi]"

text \<open>Lines 53 and 54: the replacement list of the object-like macro \<^verbatim>\<open>PK_END\<close>.\<close>

definition PK_END_body :: "token list" where
  "PK_END_body = [RBrace, Semi, Comment ''Passkey.'']"

text \<open>
  The file itself, item by item. \<open>Code\<close> stands for any token sequence outside a
  directive, which is what would reach the compiler from the header alone.
\<close>

datatype header_item =
    Doc_comment
  | Pragma_once
  | Define string "string option" "token list"
  | Code "token list"

definition header :: "header_item list" where
  "header =
     [Doc_comment,
      Pragma_once,
      Doc_comment,
      Define ''PK_BEGIN'' (Some ''_PasskeyName'') PK_BEGIN_body,
      Define ''PK_ALLOW'' (Some ''_ClassName'') PK_ALLOW_body,
      Define ''PK_END'' None PK_END_body]"

fun macro_names :: "header_item list \<Rightarrow> string list" where
  "macro_names [] = []"
| "macro_names (Define m p b # hs) = m # macro_names hs"
| "macro_names (h # hs) = macro_names hs"

fun header_code :: "header_item list \<Rightarrow> token list" where
  "header_code [] = []"
| "header_code (Code ts # hs) = ts @ header_code hs"
| "header_code (h # hs) = header_code hs"

subsection \<open>Macro invocation\<close>

fun is_comment :: "token \<Rightarrow> bool" where
  "is_comment (Comment c) = True"
| "is_comment t = False"

definition strip_comments :: "token list \<Rightarrow> token list" where
  "strip_comments ts = filter (\<lambda>t. \<not> is_comment t) ts"

definition subst :: "string \<Rightarrow> string \<Rightarrow> token \<Rightarrow> token" where
  "subst param arg t = (if t = Ident param then Ident arg else t)"

definition invoke :: "string \<Rightarrow> token list \<Rightarrow> string \<Rightarrow> token list" where
  "invoke param body arg = map (subst param arg) (strip_comments body)"

text \<open>
  The three macros as functions. The argument is a type name, an identifier that is not
  itself the name of a macro, so the rescan after replacement changes nothing.
\<close>

definition PK_BEGIN :: "string \<Rightarrow> token list" where
  "PK_BEGIN n = invoke ''_PasskeyName'' PK_BEGIN_body n"

definition PK_ALLOW :: "string \<Rightarrow> token list" where
  "PK_ALLOW t = invoke ''_ClassName'' PK_ALLOW_body t"

definition PK_END :: "token list" where
  "PK_END = strip_comments PK_END_body"

text \<open>
  A passkey declaration as the header's comment prescribes it: \<^verbatim>\<open>PK_BEGIN(N)\<close>, then one
  \<^verbatim>\<open>PK_ALLOW(T)\<close> for each entry of the allow-list, then \<^verbatim>\<open>PK_END\<close>, nothing in between.
\<close>

definition passkey :: "string \<Rightarrow> string list \<Rightarrow> token list" where
  "passkey n ts = PK_BEGIN n @ concat (map PK_ALLOW ts) @ PK_END"

section \<open>What the expansion means to the compiler\<close>

text \<open>
  The expansion is C++ text, so its meaning is given by the language: the member
  declarations of a class, the access each one has and the friends the class names. The
  fragment read here is the one the macros can produce, widened by \<^verbatim>\<open>public:\<close> sections,
  non-empty constructor bodies and data members, which the macros never produce.
\<close>

datatype access = Private | Public

datatype decl =
    Default_ctor "token list"
  | Copy_ctor "token list"
  | Deleted_copy_assign
  | Friend string
  | Data_member string string

record class_def =
  cname :: string
  members :: "(access \<times> decl) list"

definition strip_prefix :: "token list \<Rightarrow> token list \<Rightarrow> token list option" where
  "strip_prefix p ts = (if take (length p) ts = p then Some (drop (length p) ts) else None)"

text \<open>The tokens of a function body up to its closing brace (no nested block).\<close>

fun split_body :: "token list \<Rightarrow> (token list \<times> token list) option" where
  "split_body [] = None"
| "split_body (t # ts) =
     (if t = RBrace then Some ([], ts)
      else if t = LBrace then None
      else (case split_body ts of None \<Rightarrow> None | Some (b, r) \<Rightarrow> Some (t # b, r)))"

datatype item = Label access | Member decl | Close

fun parse_simple :: "token list \<Rightarrow> (item \<times> token list) option" where
  "parse_simple (Kw_friend # Ident t # Semi # r) = Some (Member (Friend t), r)"
| "parse_simple (Ident ty # Ident x # Semi # r) = Some (Member (Data_member ty x), r)"
| "parse_simple ts = None"

definition parse_item :: "string \<Rightarrow> token list \<Rightarrow> (item \<times> token list) option" where
  "parse_item n ts =
     (case strip_prefix [RBrace, Semi] ts of
        Some r \<Rightarrow> Some (Close, r)
      | None \<Rightarrow>
     (case strip_prefix [Kw_private, Colon] ts of
        Some r \<Rightarrow> Some (Label Private, r)
      | None \<Rightarrow>
     (case strip_prefix [Kw_public, Colon] ts of
        Some r \<Rightarrow> Some (Label Public, r)
      | None \<Rightarrow>
     (case strip_prefix [Ident n, LParen, RParen, LBrace] ts of
        Some r \<Rightarrow>
          (case split_body r of
             None \<Rightarrow> None
           | Some (b, r') \<Rightarrow> Some (Member (Default_ctor b), r'))
      | None \<Rightarrow>
     (case strip_prefix [Ident n, LParen, Kw_const, Ident n, Amp, RParen, LBrace] ts of
        Some r \<Rightarrow>
          (case split_body r of
             None \<Rightarrow> None
           | Some (b, r') \<Rightarrow> Some (Member (Copy_ctor b), r'))
      | None \<Rightarrow>
     (case strip_prefix [Ident n, Amp, Kw_operator, Assign, LParen, Kw_const, Ident n, Amp,
                         RParen, Assign, Kw_delete, Semi] ts of
        Some r \<Rightarrow> Some (Member Deleted_copy_assign, r)
      | None \<Rightarrow> parse_simple ts))))))"

lemma split_body_shorter: "split_body ts = Some (b, r) \<Longrightarrow> length r < length ts"
  by (induction ts arbitrary: b r) (auto split: if_splits option.splits)

lemma strip_prefix_shorter: "strip_prefix (p # ps) ts = Some r \<Longrightarrow> length r < length ts"
  by (cases ts) (auto simp: strip_prefix_def split: if_splits)

lemma parse_simple_shorter: "parse_simple ts = Some (i, r) \<Longrightarrow> length r < length ts"
  by (induction ts rule: parse_simple.induct) auto

lemma parse_item_shorter: "parse_item n ts = Some (i, r) \<Longrightarrow> length r < length ts"
  unfolding parse_item_def
  by (auto split: option.splits dest!: strip_prefix_shorter split_body_shorter
      parse_simple_shorter)

function parse_members ::
  "string \<Rightarrow> access \<Rightarrow> token list \<Rightarrow> ((access \<times> decl) list \<times> token list) option" where
  "parse_members n a ts =
     (case parse_item n ts of
        None \<Rightarrow> None
      | Some (Close, r) \<Rightarrow> Some ([], r)
      | Some (Label a', r) \<Rightarrow> parse_members n a' r
      | Some (Member d, r) \<Rightarrow>
          (case parse_members n a r of None \<Rightarrow> None
           | Some (ms, r') \<Rightarrow> Some ((a, d) # ms, r')))"
  by pat_completeness auto
termination
  by (relation "measure (\<lambda>(n, a, ts). length ts)") (auto dest: parse_item_shorter)

text \<open>
  A class definition is the class head, the members up to the closing \<^verbatim>\<open>};\<close>, and
  nothing after it. Members of a \<^verbatim>\<open>class\<close> are private until a label says otherwise.
\<close>

fun parse_class :: "token list \<Rightarrow> class_def option" where
  "parse_class (Kw_class # Ident n # LBrace # r) =
     (case parse_members n Private r of
        None \<Rightarrow> None
      | Some (ms, rest) \<Rightarrow> if rest = [] then Some \<lparr>cname = n, members = ms\<rparr> else None)"
| "parse_class ts = None"

subsection \<open>Friends, special members and the access check\<close>

fun friends_of :: "(access \<times> decl) list \<Rightarrow> string list" where
  "friends_of [] = []"
| "friends_of ((a, Friend t) # ms) = t # friends_of ms"
| "friends_of (m # ms) = friends_of ms"

fun data_members_of :: "(access \<times> decl) list \<Rightarrow> (string \<times> string) list" where
  "data_members_of [] = []"
| "data_members_of ((a, Data_member ty x) # ms) = (ty, x) # data_members_of ms"
| "data_members_of (m # ms) = data_members_of ms"

fun find_default_ctor :: "(access \<times> decl) list \<Rightarrow> (access \<times> token list) option" where
  "find_default_ctor [] = None"
| "find_default_ctor ((a, Default_ctor b) # ms) = Some (a, b)"
| "find_default_ctor (m # ms) = find_default_ctor ms"

fun find_copy_ctor :: "(access \<times> decl) list \<Rightarrow> (access \<times> token list) option" where
  "find_copy_ctor [] = None"
| "find_copy_ctor ((a, Copy_ctor b) # ms) = Some (a, b)"
| "find_copy_ctor (m # ms) = find_copy_ctor ms"

fun deletes_copy_assign :: "(access \<times> decl) list \<Rightarrow> bool" where
  "deletes_copy_assign [] = False"
| "deletes_copy_assign ((a, Deleted_copy_assign) # ms) = True"
| "deletes_copy_assign (m # ms) = deletes_copy_assign ms"

text \<open>
  The three things a piece of code can try with a passkey type, and what the class offers
  for each: a function the class declares with a body, a deleted function, the function
  the language supplies (public) when the class declares none, or no function at all (a
  class that declares a constructor gets no implicit default constructor).
\<close>

datatype operation = Default_construct | Copy_construct | Copy_assign

datatype special = Declared access "token list" | Deleted_fn | Implicit | Absent

fun special_member :: "class_def \<Rightarrow> operation \<Rightarrow> special" where
  "special_member c Default_construct =
     (case find_default_ctor (members c) of
        Some (a, b) \<Rightarrow> Declared a b
      | None \<Rightarrow> (case find_copy_ctor (members c) of Some x \<Rightarrow> Absent | None \<Rightarrow> Implicit))"
| "special_member c Copy_construct =
     (case find_copy_ctor (members c) of Some (a, b) \<Rightarrow> Declared a b | None \<Rightarrow> Implicit)"
| "special_member c Copy_assign =
     (if deletes_copy_assign (members c) then Deleted_fn else Implicit)"

text \<open>
  The code that performs an operation is identified by its scope: the names of the
  classes that enclose it, outermost first. \<open>[T]\<close> is code of the class \<open>T\<close>,
  \<open>[T, U]\<close> code of a class \<open>U\<close> nested in \<open>T\<close> (or local to one of its member
  functions), and \<open>[]\<close> code outside every class. A macro argument \<open>t\<close> names the
  class \<open>[t]\<close>.
\<close>

type_synonym scope = "string list"


text \<open>
  A private member can be named by the members of its class and by the friends of its
  class, a public one by everybody. A class nested in a class is a member of it, and the
  friendship granted to a class reaches the member declarations of that class, the
  classes nested in it included. So access goes by the outermost class of the scope.
\<close>

fun enclosed_by :: "string list \<Rightarrow> scope \<Rightarrow> bool" where
  "enclosed_by ns [] = False"
| "enclosed_by ns (outer # inner) = (outer \<in> set ns)"

definition may_access :: "class_def \<Rightarrow> scope \<Rightarrow> access \<Rightarrow> bool" where
  "may_access c sc a = (a = Public \<or> enclosed_by (cname c # friends_of (members c)) sc)"

datatype diagnostic = Malformed | Inaccessible | Deleted | No_constructor

datatype verdict = Accepted | Rejected diagnostic

fun check :: "class_def \<Rightarrow> scope \<Rightarrow> operation \<Rightarrow> verdict" where
  "check c sc op =
     (case special_member c op of
        Declared a b \<Rightarrow> if may_access c sc a then Accepted else Rejected Inaccessible
      | Deleted_fn \<Rightarrow> Rejected Deleted
      | Implicit \<Rightarrow> Accepted
      | Absent \<Rightarrow> Rejected No_constructor)"




subsection \<open>Running a constructor\<close>

text \<open>
  The empty compound statement returns at once and leaves the program state \<open>s\<close> as it
  is. No other body is given a meaning (\<open>None\<close>); an implicit member of a class without
  data members does nothing either.
\<close>

fun exec_body :: "token list \<Rightarrow> 's \<Rightarrow> 's option" where
  "exec_body [] s = Some s"
| "exec_body (t # ts) s = None"

fun run :: "class_def \<Rightarrow> operation \<Rightarrow> 's \<Rightarrow> 's option" where
  "run c op s =
     (case special_member c op of
        Declared a b \<Rightarrow> exec_body b s
      | Implicit \<Rightarrow> (if data_members_of (members c) = [] then Some s else None)
      | Deleted_fn \<Rightarrow> None
      | Absent \<Rightarrow> None)"

text \<open>
  An attempt to construct: either the compiler rejects it, or it is accepted and the
  selected constructor runs.
\<close>

datatype 's attempt = Compile_error diagnostic | Completed 's | Undefined_run

definition construct :: "token list \<Rightarrow> scope \<Rightarrow> operation \<Rightarrow> 's \<Rightarrow> 's attempt" where
  "construct ts sc op s =
     (case parse_class ts of
        None \<Rightarrow> Compile_error Malformed
      | Some c \<Rightarrow>
          (case check c sc op of
             Rejected d \<Rightarrow> Compile_error d
           | Accepted \<Rightarrow> (case run c op s of Some s' \<Rightarrow> Completed s' | None \<Rightarrow> Undefined_run)))"

section \<open>The shape of every passkey class\<close>

text \<open>
  The member list every passkey declaration will be shown to have: the three special
  members of \<^verbatim>\<open>PK_BEGIN\<close>, all in the private section, then one friend declaration for
  each \<^verbatim>\<open>PK_ALLOW\<close>, in the order written.
\<close>

fun friend_decls :: "string list \<Rightarrow> (access \<times> decl) list" where
  "friend_decls [] = []"
| "friend_decls (t # ts) = (Private, Friend t) # friend_decls ts"

definition passkey_members :: "string list \<Rightarrow> (access \<times> decl) list" where
  "passkey_members ts =
     (Private, Default_ctor []) # (Private, Copy_ctor []) # (Private, Deleted_copy_assign)
     # friend_decls ts"

text \<open>
  The specification's wording, "only private constructors and friend declarations", as a
  predicate on a class, and the wider one that also admits a deleted copy assignment in
  the private section.
\<close>

fun private_ctor_or_friend :: "access \<times> decl \<Rightarrow> bool" where
  "private_ctor_or_friend (Private, Default_ctor b) = True"
| "private_ctor_or_friend (Private, Copy_ctor b) = True"
| "private_ctor_or_friend (a, Friend t) = True"
| "private_ctor_or_friend m = False"

definition only_private_ctors_and_friends :: "class_def \<Rightarrow> bool" where
  "only_private_ctors_and_friends c = list_all private_ctor_or_friend (members c)"

fun private_special_or_friend :: "access \<times> decl \<Rightarrow> bool" where
  "private_special_or_friend (Private, Deleted_copy_assign) = True"
| "private_special_or_friend m = private_ctor_or_friend m"

section \<open>Expanding and parsing a passkey declaration\<close>

declare parse_members.simps [simp del]

lemma PK_BEGIN_tokens:
  "PK_BEGIN n =
     [Kw_class, Ident n, LBrace, Kw_private, Colon,
      Ident n, LParen, RParen, LBrace, RBrace,
      Ident n, LParen, Kw_const, Ident n, Amp, RParen, LBrace, RBrace,
      Ident n, Amp, Kw_operator, Assign, LParen, Kw_const, Ident n, Amp, RParen, Assign,
      Kw_delete, Semi]"
  by (simp add: PK_BEGIN_def PK_BEGIN_body_def invoke_def strip_comments_def subst_def)

lemma PK_ALLOW_tokens: "PK_ALLOW t = [Kw_friend, Ident t, Semi]"
  by (simp add: PK_ALLOW_def PK_ALLOW_body_def invoke_def strip_comments_def subst_def)

lemma PK_END_tokens: "PK_END = [RBrace, Semi]"
  by (simp add: PK_END_def PK_END_body_def strip_comments_def)


lemma parse_item_close: "parse_item n (RBrace # Semi # r) = Some (Close, r)"
  by (simp add: parse_item_def strip_prefix_def)

lemma parse_item_private: "parse_item n (Kw_private # Colon # r) = Some (Label Private, r)"
  by (simp add: parse_item_def strip_prefix_def)

lemma parse_item_friend:
  "parse_item n (Kw_friend # Ident t # Semi # r) = Some (Member (Friend t), r)"
  by (simp add: parse_item_def strip_prefix_def)

lemma parse_item_default_ctor:
  "parse_item n (Ident n # LParen # RParen # LBrace # RBrace # r)
     = Some (Member (Default_ctor []), r)"
  by (simp add: parse_item_def strip_prefix_def)

lemma parse_item_copy_ctor:
  "parse_item n (Ident n # LParen # Kw_const # Ident n # Amp # RParen # LBrace # RBrace # r)
     = Some (Member (Copy_ctor []), r)"
  by (simp add: parse_item_def strip_prefix_def)

lemma parse_item_deleted_assign:
  "parse_item n (Ident n # Amp # Kw_operator # Assign # LParen # Kw_const # Ident n # Amp #
                 RParen # Assign # Kw_delete # Semi # r)
     = Some (Member Deleted_copy_assign, r)"
  by (simp add: parse_item_def strip_prefix_def)

lemma friend_decls_map: "friend_decls ts = map (\<lambda>t. (Private, Friend t)) ts"
  by (induction ts) simp_all

text \<open>The friend declarations and the closing \<^verbatim>\<open>};\<close>, whatever section they stand in.\<close>

lemma parse_members_allow_list:
  "parse_members n a (concat (map PK_ALLOW ts) @ PK_END)
     = Some (map (\<lambda>t. (a, Friend t)) ts, [])"
proof (induction ts)
  case Nil
  show ?case
    by (subst parse_members.simps) (simp add: PK_END_tokens parse_item_close)
next
  case (Cons t ts)
  show ?case
    by (subst parse_members.simps) (simp add: PK_ALLOW_tokens parse_item_friend Cons.IH)
qed

lemma parse_members_passkey:
  "parse_members n Private (drop 3 (passkey n ts)) = Some (passkey_members ts, [])"
  unfolding passkey_def PK_BEGIN_tokens
  apply simp
  apply (subst parse_members.simps, simp add: parse_item_private)
  apply (subst parse_members.simps, simp add: parse_item_default_ctor)
  apply (subst parse_members.simps, simp add: parse_item_copy_ctor)
  apply (subst parse_members.simps, simp add: parse_item_deleted_assign)
  apply (simp add: parse_members_allow_list passkey_members_def friend_decls_map)
  done

lemma parse_class_passkey:
  "parse_class (passkey n ts) = Some \<lparr>cname = n, members = passkey_members ts\<rparr>"
proof -
  have "passkey n ts = Kw_class # Ident n # LBrace # drop 3 (passkey n ts)"
    by (simp add: passkey_def PK_BEGIN_tokens)
  then have "parse_class (passkey n ts)
               = parse_class (Kw_class # Ident n # LBrace # drop 3 (passkey n ts))"
    by simp
  then show ?thesis
    by (simp add: parse_members_passkey)
qed

section \<open>What a passkey class offers\<close>

lemma friends_of_friend_decls: "friends_of (friend_decls ts) = ts"
  by (induction ts) simp_all

lemma data_members_of_friend_decls: "data_members_of (friend_decls ts) = []"
  by (induction ts) simp_all

lemma list_all_special_friend_decls: "list_all private_special_or_friend (friend_decls ts)"
  by (induction ts) simp_all

lemma friends_of_passkey_members: "friends_of (passkey_members ts) = ts"
  by (simp add: passkey_members_def friends_of_friend_decls)

lemma data_members_of_passkey_members: "data_members_of (passkey_members ts) = []"
  by (simp add: passkey_members_def data_members_of_friend_decls)

lemma special_member_passkey:
  "special_member \<lparr>cname = n, members = passkey_members ts\<rparr> op =
     (if op = Copy_assign then Deleted_fn else Declared Private [])"
  by (cases op) (simp_all add: passkey_members_def)


lemma check_passkey:
  "check \<lparr>cname = n, members = passkey_members ts\<rparr> sc op =
     (if op = Copy_assign then Rejected Deleted
      else if enclosed_by (n # ts) sc then Accepted else Rejected Inaccessible)"
  by (simp add: special_member_passkey may_access_def friends_of_passkey_members)


lemma run_passkey:
  "run \<lparr>cname = n, members = passkey_members ts\<rparr> op s
     = (if op = Copy_assign then None else Some s)"
  by (simp add: special_member_passkey)

lemma construct_passkey:
  "construct (passkey n ts) sc op s =
     (if op = Copy_assign then Compile_error Deleted
      else if enclosed_by (n # ts) sc then Completed s else Compile_error Inaccessible)"
  by (simp add: construct_def parse_class_passkey check_passkey run_passkey
      del: check.simps run.simps)


section \<open>The claims\<close>







text \<open>
  Claim C3 says that the class contains only private constructors and friend
  declarations. \<^verbatim>\<open>PK_BEGIN\<close> also declares the copy assignment operator, as deleted, so
  the class of a passkey with one allowed type already has a member of a third kind.
\<close>

theorem deleted_assignment_is_a_member:
  "map_option only_private_ctors_and_friends
     (parse_class (passkey ''MyClassDefaultPasskey'' [''OneClass''])) = Some False"
  by (simp add: parse_class_passkey passkey_members_def only_private_ctors_and_friends_def)

text \<open>
  Claim C3, amended. The header defines exactly the three macros \<^verbatim>\<open>PK_BEGIN\<close>,
  \<^verbatim>\<open>PK_ALLOW\<close> and \<^verbatim>\<open>PK_END\<close> and holds no code outside them; for every passkey name and
  allow-list the combined expansion is one class definition, named as asked, that contains
  only private constructors, a deleted copy assignment operator in the private section,
  and friend declarations.
\<close>

theorem header_three_macros_one_class:
  "macro_names header = [''PK_BEGIN'', ''PK_ALLOW'', ''PK_END''] \<and>
   header_code header = [] \<and>
   (\<exists>c. parse_class (passkey N ts) = Some c \<and> cname c = N \<and>
        list_all private_special_or_friend (members c))"
  by (simp add: header_def parse_class_passkey passkey_members_def
      list_all_special_friend_decls)

theorem header_three_macros_one_class_witness:
  "macro_names header = [''PK_BEGIN'', ''PK_ALLOW'', ''PK_END''] \<and>
   header_code header = [] \<and>
   (\<exists>c. parse_class (passkey ''MyClassDefaultPasskey'' [''OneClass'', ''AnotherClass''])
          = Some c \<and>
        cname c = ''MyClassDefaultPasskey'' \<and>
        list_all private_special_or_friend (members c))"
  using header_three_macros_one_class
          [of "''MyClassDefaultPasskey''" "[''OneClass'', ''AnotherClass'']"]
  by simp




text \<open>
  Claim C5. For every passkey type, constructing or copy-constructing an instance has no
  effect: both constructors are declared with an empty body, the class has no data
  member, running either constructor returns the program state it was given, and no
  attempt of any kind on a passkey completes in another state.
\<close>

theorem construction_is_noop:
  "\<exists>c. parse_class (passkey N ts) = Some c \<and>
       special_member c Default_construct = Declared Private [] \<and>
       special_member c Copy_construct = Declared Private [] \<and>
       data_members_of (members c) = [] \<and>
       run c Default_construct s = Some s \<and>
       run c Copy_construct s = Some s \<and>
       (\<forall>C op s'. construct (passkey N ts) C op s = Completed s' \<longrightarrow> s' = s)"
proof -
  let ?c = "\<lparr>cname = N, members = passkey_members ts\<rparr>"
  have "parse_class (passkey N ts) = Some ?c"
    by (rule parse_class_passkey)
  moreover have "special_member ?c Default_construct = Declared Private []"
    and "special_member ?c Copy_construct = Declared Private []"
    by (simp_all only: special_member_passkey) simp_all
  moreover have "data_members_of (members ?c) = []"
    by (simp add: data_members_of_passkey_members)
  moreover have "run ?c Default_construct s = Some s" and "run ?c Copy_construct s = Some s"
    by (simp_all add: run_passkey del: run.simps)
  moreover have "\<forall>C op s'. construct (passkey N ts) C op s = Completed s' \<longrightarrow> s' = s"
    by (simp add: construct_passkey)
  ultimately show ?thesis by blast
qed

theorem construction_is_noop_witness:
  "construct (passkey ''MyClassDefaultPasskey'' [''OneClass'']) [''OneClass''] Copy_construct (7::nat)
     = Completed 7"
  using construction_is_noop [of "''MyClassDefaultPasskey''" "[''OneClass'']" "7::nat"]
  by (simp add: construct_passkey)










end
